theory Spec2Isabelle
  imports Complex_Main "HOL-Library.Sublist"
begin

chapter \<open>A shallow embedding of the DeFi Dash SDK\<close>

text \<open>
  The development has two parts. The first holds the definitions, each translated
  from one function of the TypeScript sources and kept under the source's name. The
  second holds the lemmas and the theorems about them.

  Conventions of the embedding.
  \<^item> A \<^verbatim>\<open>bigint\<close> is an \<^typ>\<open>int\<close>; its division truncates towards zero
    (\<open>bigint_div\<close>) and raises \<^verbatim>\<open>RangeError\<close> on a zero divisor.
  \<^item> A finite \<^verbatim>\<open>BigNumber\<close> (bignumber.js) is a \<^typ>\<open>rat\<close>. Its \<^verbatim>\<open>plus\<close>,
    \<^verbatim>\<open>minus\<close> and \<^verbatim>\<open>times\<close> are exact; its \<^verbatim>\<open>div\<close> rounds the quotient to
    \<^verbatim>\<open>DECIMAL_PLACES = 20\<close> decimal places with \<^verbatim>\<open>ROUND_HALF_UP\<close>, the library's
    configuration when nothing changes it (the sources never do).
  \<^item> A JavaScript \<^verbatim>\<open>number\<close> is idealised as a \<^typ>\<open>rat\<close>: the rounding of
    IEEE doubles is not modelled.
  \<^item> A string is a \<^typ>\<open>string\<close>; the sources only ever inspect ASCII characters.
  \<^item> A rejected promise or a thrown exception is the left summand of a sum type.
\<close>

section \<open>Definitions\<close>

subsection \<open>Thrown values\<close>

text \<open>
  What a \<^verbatim>\<open>catch (error: any)\<close> can receive: an \<^verbatim>\<open>Error\<close> object with its
  \<^verbatim>\<open>name\<close> and \<^verbatim>\<open>message\<close>, some other value that is neither \<^verbatim>\<open>null\<close> nor
  \<^verbatim>\<open>undefined\<close> and has no \<^verbatim>\<open>message\<close> property (given by its \<^verbatim>\<open>String(...)\<close>
  form), or \<^verbatim>\<open>null\<close>/\<^verbatim>\<open>undefined\<close>.
\<close>

datatype thrown =
    ErrorObj string string
  | OtherValue string
  | Nullish

definition Error :: "string \<Rightarrow> thrown" where
  "Error msg = ErrorObj ''Error'' msg"

definition RangeError :: "string \<Rightarrow> thrown" where
  "RangeError msg = ErrorObj ''RangeError'' msg"

definition SyntaxError :: "string \<Rightarrow> thrown" where
  "SyntaxError msg = ErrorObj ''SyntaxError'' msg"


subsection \<open>JavaScript strings and bigint literals\<close>

definition decimal_digits :: string where
  "decimal_digits = ''0123456789''"

definition is_digit :: "char \<Rightarrow> bool" where
  "is_digit c = (c \<in> set decimal_digits)"

text \<open>The value of a digit is its place among the ten digits, and conversely.\<close>

definition digit_value :: "char \<Rightarrow> nat" where
  "digit_value c = length (takeWhile (\<lambda>x. x \<noteq> c) decimal_digits)"

definition digit_char :: "nat \<Rightarrow> char" where
  "digit_char d = decimal_digits ! (d mod 10)"

text \<open>\<^verbatim>\<open>n.toString()\<close> of a bigint: decimal digits, most significant first.\<close>

fun nat_toString :: "nat \<Rightarrow> string" where
  "nat_toString n =
     (if n < 10 then [digit_char n] else nat_toString (n div 10) @ [digit_char (n mod 10)])"

declare nat_toString.simps [simp del]

definition bigint_toString :: "int \<Rightarrow> string" where
  "bigint_toString i =
     (if i < 0 then CHR ''-'' # nat_toString (nat (- i)) else nat_toString (nat i))"

text \<open>\<^verbatim>\<open>s.padStart(n, c)\<close> and \<^verbatim>\<open>s.padEnd(n, c)\<close> with a one-character filler.\<close>

definition padStart :: "nat \<Rightarrow> char \<Rightarrow> string \<Rightarrow> string" where
  "padStart n c s = replicate (n - length s) c @ s"

definition padEnd :: "nat \<Rightarrow> char \<Rightarrow> string \<Rightarrow> string" where
  "padEnd n c s = s @ replicate (n - length s) c"

text \<open>
  \<^verbatim>\<open>s.split(sep)\<close>: the pieces between the successive occurrences of the separator,
  found from left to right without overlap. An empty separator splits into
  characters. In \<open>split_from\<close> the second argument is the piece read so far; at an
  occurrence of the separator, whose first character is the one just read, the scan
  resumes behind it.
\<close>

fun split_from :: "string \<Rightarrow> string \<Rightarrow> string \<Rightarrow> string list" where
  "split_from sep acc [] = [acc]"
| "split_from sep acc (c # cs) =
     (if sep \<noteq> [] \<and> prefix sep (c # cs)
      then acc # split_from sep [] (drop (length sep - 1) cs)
      else split_from sep (acc @ [c]) cs)"

definition split :: "string \<Rightarrow> string \<Rightarrow> string list" where
  "split sep s = (if sep = [] then map (\<lambda>c. [c]) s else split_from sep [] s)"

text \<open>
  \<^verbatim>\<open>s.replace(pat, rep)\<close> with a string pattern: the first occurrence only. (The
  replacement strings of the sources contain no \<^verbatim>\<open>$\<close>.)
\<close>

fun replace_first :: "string \<Rightarrow> string \<Rightarrow> string \<Rightarrow> string" where
  "replace_first pat rep [] = (if pat = [] then rep else [])"
| "replace_first pat rep (c # cs) =
     (if prefix pat (c # cs) then rep @ drop (length pat) (c # cs)
      else c # replace_first pat rep cs)"

text \<open>
  \<^verbatim>\<open>s.replace(/\.?0+$/, "")\<close>. The pattern is anchored at the end, so it matches at a
  position exactly when the rest of the string from there is an optional dot followed
  by one or more zeros; the first such position from the left is the one replaced.
\<close>

definition all_zero :: "string \<Rightarrow> bool" where
  "all_zero s = list_all (\<lambda>c. c = CHR ''0'') s"

fun matches_dot_zeros :: "string \<Rightarrow> bool" where
  "matches_dot_zeros [] = False"
| "matches_dot_zeros (c # r) =
     (if c = CHR ''.'' then r \<noteq> [] \<and> all_zero r else all_zero (c # r))"

fun replace_dot_zeros :: "string \<Rightarrow> string" where
  "replace_dot_zeros [] = []"
| "replace_dot_zeros (c # r) =
     (if matches_dot_zeros (c # r) then [] else c # replace_dot_zeros r)"

text \<open>
  \<^verbatim>\<open>BigInt(s)\<close> for a decimal literal: digits, possibly none (the value 0), possibly
  after one sign. Anything else is reported as the \<^verbatim>\<open>SyntaxError\<close> that JavaScript
  raises; the hexadecimal, octal and binary literals and the surrounding white space
  that \<^verbatim>\<open>BigInt\<close> also accepts do not occur below and are not modelled.
\<close>

definition digits_value :: "string \<Rightarrow> nat" where
  "digits_value s = foldl (\<lambda>acc c. 10 * acc + digit_value c) 0 s"

definition BigInt :: "string \<Rightarrow> thrown + int" where
  "BigInt s =
     (if list_all is_digit s then Inr (int (digits_value s))
      else case s of
        c # r \<Rightarrow>
          if c = CHR ''-'' \<and> r \<noteq> [] \<and> list_all is_digit r then Inr (- int (digits_value r))
          else if c = CHR ''+'' \<and> r \<noteq> [] \<and> list_all is_digit r then Inr (int (digits_value r))
          else Inl (SyntaxError (''Cannot convert '' @ s @ '' to a BigInt''))
      | [] \<Rightarrow> Inr 0)"

subsection \<open>Unit conversion (\<^verbatim>\<open>src/lib/utils/format.ts\<close>)\<close>

text \<open>
  \<^verbatim>\<open>formatUnits\<close> on a bigint amount and a natural number of decimals, and
  \<^verbatim>\<open>parseUnits\<close>. (A \<^verbatim>\<open>number\<close> passed as the amount prints like a bigint only
  below \<open>10^21\<close>.)
\<close>

definition formatUnits :: "int \<Rightarrow> nat \<Rightarrow> string" where
  "formatUnits amount decimals =
     (let s = bigint_toString amount in
      if decimals = 0 then s
      else
        let pad = padStart (decimals + 1) (CHR ''0'') s;
            transition = length pad - decimals;
            r = replace_dot_zeros (take transition pad @ ''.'' @ drop transition pad)
        in if r = [] then ''0'' else r)"

text \<open>
  \<^verbatim>\<open>const [integer, fraction = ""] = amount.split(".")\<close>: the first two pieces, the
  second defaulting to the empty string.
\<close>

definition parseUnits :: "string \<Rightarrow> nat \<Rightarrow> thrown + int" where
  "parseUnits amount decimals =
     (let parts = split ''.'' amount;
          integer = (case parts of [] \<Rightarrow> ''undefined'' | i # _ \<Rightarrow> i);
          fraction = (case parts of _ # f # _ \<Rightarrow> f | _ \<Rightarrow> []);
          paddedFraction = take decimals (padEnd decimals (CHR ''0'') fraction)
      in BigInt (integer @ paddedFraction))"

subsection \<open>Coin types (\<^verbatim>\<open>src/lib/utils/coin.ts\<close>)\<close>

definition normalizeCoinType :: "string \<Rightarrow> string" where
  "normalizeCoinType ct =
     (let parts = split ''::'' ct in
      if length parts \<noteq> 3 then ct
      else
        let pkg = replace_first ''0x'' [] (parts ! 0);
            pkg = padStart 64 (CHR ''0'') pkg
        in ''0x'' @ pkg @ ''::'' @ parts ! 1 @ ''::'' @ parts ! 2)"

text \<open>
  Two shapes of strings with respect to the separator \<^verbatim>\<open>::\<close>, used to state what
  \<open>split\<close> returns: \<open>no_separator s\<close> when \<^verbatim>\<open>::\<close> does not occur in \<open>s\<close>, and
  \<open>separable s\<close> when moreover \<open>s\<close> does not end with a colon, so that \<^verbatim>\<open>::\<close> occurs
  in \<open>s @ ''::'' @ r\<close> first right after \<open>s\<close>.
\<close>

fun no_separator :: "string \<Rightarrow> bool" where
  "no_separator (a # b # cs) = (\<not> (a = CHR '':'' \<and> b = CHR '':'') \<and> no_separator (b # cs))"
| "no_separator _ = True"

fun separable :: "string \<Rightarrow> bool" where
  "separable [] = True"
| "separable [c] = (c \<noteq> CHR '':'')"
| "separable (a # b # cs) = (\<not> (a = CHR '':'' \<and> b = CHR '':'') \<and> separable (b # cs))"

definition ends_with_colon :: "string \<Rightarrow> bool" where
  "ends_with_colon s = (s \<noteq> [] \<and> last s = CHR '':'')"

text \<open>The package part of an identifier as \<open>normalizeCoinType\<close> pads it.\<close>

definition stripped_package :: "string \<Rightarrow> string" where
  "stripped_package ct = replace_first ''0x'' [] (split ''::'' ct ! 0)"

subsection \<open>The local reserve table (\<^verbatim>\<open>src/lib/suilend/const.ts\<close>)\<close>









subsection \<open>BigNumber arithmetic\<close>

definition DECIMAL_PLACES :: nat where
  "DECIMAL_PLACES = 20"

text \<open>\<^verbatim>\<open>ROUND_HALF_UP\<close>: to the nearest integer, a tie away from zero.\<close>

definition round_half_up :: "rat \<Rightarrow> int" where
  "round_half_up q = (if 0 \<le> q then \<lfloor>q + 1 / 2\<rfloor> else - \<lfloor>- q + 1 / 2\<rfloor>)"

text \<open>\<^verbatim>\<open>x.div(y)\<close> for finite \<open>x\<close> and a finite non-zero \<open>y\<close>.\<close>

definition bn_div :: "rat \<Rightarrow> rat \<Rightarrow> rat" where
  "bn_div x y = of_int (round_half_up (x / y * 10 ^ DECIMAL_PLACES)) / 10 ^ DECIMAL_PLACES"

text \<open>A BigNumber that may be \<^verbatim>\<open>new BigNumber(Infinity)\<close>.\<close>

datatype bignumber = Finite rat | Infinity

subsection \<open>Borrow compounding (\<^verbatim>\<open>src/lib/suilend/suilend.ts\<close>)\<close>

definition calculateCompoundedBorrow :: "rat \<Rightarrow> rat \<Rightarrow> rat \<Rightarrow> rat" where
  "calculateCompoundedBorrow rawBorrowAmount cumulativeBorrowRateInit cumulativeBorrowRateCurrent =
     (let rawInfo = rawBorrowAmount;
          initRate = cumulativeBorrowRateInit;
          currentRate = cumulativeBorrowRateCurrent
      in if initRate = 0 then rawInfo
         else let compoundingFactor = bn_div currentRate initRate
              in rawInfo * compoundingFactor)"

subsection \<open>Risk metrics (\<^verbatim>\<open>src/lib/suilend/calculators.ts\<close>)\<close>

text \<open>
  The parsed obligation, with the fields the calculators read, all of them finite. A
  deposit carries its coin type and the configuration of its reserve
  (\<^verbatim>\<open>d.reserve.config.openLtvPct\<close>, \<^verbatim>\<open>d.reserve.config.closeLtvPct\<close>). The fields
  \<^verbatim>\<open>depositedAmountUsd\<close> and \<^verbatim>\<open>borrowedAmountUsd\<close> of the obligation itself are
  \<open>totalDepositedAmountUsd\<close> and \<open>totalBorrowedAmountUsd\<close> here, the names without
  prefix being those of a single deposit and a single borrow.
\<close>

record parsed_deposit =
  coinType :: string
  depositedAmount :: rat
  depositedAmountUsd :: rat
  openLtvPct :: rat
  closeLtvPct :: rat

record parsed_borrow =
  borrowCoinType :: string
  borrowedAmountUsd :: rat

record parsed_obligation =
  netValueUsd :: rat
  totalDepositedAmountUsd :: rat
  totalBorrowedAmountUsd :: rat
  borrowLimitUsd :: rat
  unhealthyBorrowValueUsd :: rat
  weightedBorrowsUsd :: rat
  deposits :: "parsed_deposit list"
  borrows :: "parsed_borrow list"

text \<open>
  \<^verbatim>\<open>PortfolioMetrics\<close> without \<^verbatim>\<open>netApy\<close> and \<^verbatim>\<open>totalAnnualNetEarnings\<close>: those two
  are accumulated in floating point from the reward streams and the wall clock, and
  nothing below depends on them.
\<close>

record PortfolioMetrics =
  netValue :: rat
  totalSupply :: rat
  totalBorrow :: rat
  borrowLimit :: rat
  liquidationThreshold :: rat
  healthFactor :: bignumber
  weightedOpenLtv :: rat

definition calculatePortfolioMetrics :: "parsed_obligation \<Rightarrow> PortfolioMetrics" where
  "calculatePortfolioMetrics parsedObligation =
     (let netValue = netValueUsd parsedObligation;
          totalSupply = totalDepositedAmountUsd parsedObligation;
          totalBorrow = totalBorrowedAmountUsd parsedObligation;
          borrowLimit = borrowLimitUsd parsedObligation;
          liquidationThreshold = unhealthyBorrowValueUsd parsedObligation;
          weightedBorrows = weightedBorrowsUsd parsedObligation;
          healthFactor =
            (if weightedBorrows = 0 then Infinity
             else Finite (bn_div liquidationThreshold weightedBorrows));
          weightedOpenLtv =
            (if totalSupply > 0
             then foldl (\<lambda>acc d. acc + bn_div (depositedAmountUsd d) totalSupply * (openLtvPct d / 100))
                    0 (deposits parsedObligation)
             else 0)
      in \<lparr> netValue = netValue, totalSupply = totalSupply, totalBorrow = totalBorrow,
           borrowLimit = borrowLimit, liquidationThreshold = liquidationThreshold,
           healthFactor = healthFactor, weightedOpenLtv = weightedOpenLtv \<rparr>)"

text \<open>
  \<^verbatim>\<open>calculateLiquidationPrice\<close>; \<open>None\<close> is the \<^verbatim>\<open>null\<close> of the source. The loop over the
  deposits skips the target asset and adds \<^verbatim>\<open>value.times(ltv)\<close> for the others.
\<close>

definition otherCollateralWeighted :: "string \<Rightarrow> parsed_obligation \<Rightarrow> rat" where
  "otherCollateralWeighted target parsedObligation =
     foldl (\<lambda>acc d. if coinType d = target then acc
                     else acc + depositedAmountUsd d * (closeLtvPct d / 100))
       0 (deposits parsedObligation)"

definition calculateLiquidationPrice ::
  "string \<Rightarrow> rat \<Rightarrow> rat \<Rightarrow> parsed_obligation \<Rightarrow> rat option" where
  "calculateLiquidationPrice target amount liqThreshold parsedObligation =
     (let totalWeightedBorrows = weightedBorrowsUsd parsedObligation;
          numerator = totalWeightedBorrows - otherCollateralWeighted target parsedObligation
      in if numerator \<le> 0 then Some 0
         else let denominator = amount * liqThreshold
              in if denominator = 0 then None
                 else Some (bn_div numerator denominator))"

text \<open>
  Two obligations used as concrete inputs below: 1000 USD of SUI (close LTV 80%)
  and nothing borrowed; and the same deposit beside 1000 USD of USDC (close LTV 85%)
  with 500 USD of weighted borrows.
\<close>

definition sui_deposit :: parsed_deposit where
  "sui_deposit = \<lparr> coinType = ''0x2::sui::SUI'', depositedAmount = 500,
     depositedAmountUsd = 1000, openLtvPct = 70, closeLtvPct = 80 \<rparr>"

definition usdc_deposit :: parsed_deposit where
  "usdc_deposit = \<lparr> coinType = ''0xdba3::usdc::USDC'', depositedAmount = 1000,
     depositedAmountUsd = 1000, openLtvPct = 77, closeLtvPct = 85 \<rparr>"

definition obligation_without_debt :: parsed_obligation where
  "obligation_without_debt = \<lparr> netValueUsd = 1000, totalDepositedAmountUsd = 1000,
     totalBorrowedAmountUsd = 0, borrowLimitUsd = 700, unhealthyBorrowValueUsd = 800,
     weightedBorrowsUsd = 0, deposits = [sui_deposit], borrows = [] \<rparr>"

definition obligation_two_deposits :: parsed_obligation where
  "obligation_two_deposits = \<lparr> netValueUsd = 1500, totalDepositedAmountUsd = 2000,
     totalBorrowedAmountUsd = 500, borrowLimitUsd = 1470, unhealthyBorrowValueUsd = 1650,
     weightedBorrowsUsd = 500, deposits = [sui_deposit, usdc_deposit],
     borrows = [\<lparr> borrowCoinType = ''0xdba3::usdc::USDC'', borrowedAmountUsd = 500 \<rparr>] \<rparr>"

subsection \<open>The Suilend adapter: withdrawable amount (\<^verbatim>\<open>src/protocols/suilend.ts\<close>)\<close>










subsection \<open>Positions and strategy results (\<^verbatim>\<open>src/types.ts\<close>)\<close>

definition USDC_COIN_TYPE :: string where
  "USDC_COIN_TYPE =
     ''0xdba34672e30cb065b1f93e3ab55318768fd6fef66c15942c9f7cb846e2f900e7::usdc::USDC''"

record AssetPosition =
  amount :: int
  symbol :: string
  assetCoinType :: string
  decimals :: nat
  valueUsd :: rat

text \<open>\<^verbatim>\<open>PositionInfo\<close>, without its optional fields, which the builders never read.\<close>

record PositionInfo =
  collateral :: AssetPosition
  debt :: AssetPosition
  positionNetValueUsd :: rat

subsection \<open>The deleverage builder (\<^verbatim>\<open>src/strategies/deleverage.ts\<close>)\<close>

text \<open>\<^verbatim>\<open>a / b\<close> on bigints: the quotient truncated towards zero, for \<open>b \<noteq> 0\<close>.\<close>

definition bigint_div :: "int \<Rightarrow> int \<Rightarrow> int" where
  "bigint_div a b = sgn a * sgn b * (\<bar>a\<bar> div \<bar>b\<bar>)"

text \<open>
  A quote of the swap aggregator. Its amounts are decimal strings that the builder
  reads with \<^verbatim>\<open>BigInt\<close> and \<^verbatim>\<open>Number\<close>; the model holds their values.
\<close>

record swap_quote =
  amountIn :: int
  amountOut :: int

text \<open>
  The collaborators of the builder, as the outcomes of their calls:
  \<^item> \<open>quote\<close> is \<^verbatim>\<open>swapClient.quote({amountIn, coinTypeIn, coinTypeOut})\<close>;
  \<^item> \<open>getTokenPrice\<close> is the aggregator's price query;
  \<^item> \<open>calculateFee\<close> is \<^verbatim>\<open>ScallopFlashLoanClient.calculateFee\<close> of
    \<^verbatim>\<open>src/lib/scallop\<close>, a module that is not modelled here: the fee is any function
    of the amount;
  \<^item> \<open>refreshOracles\<close>, \<open>repay\<close> and \<open>withdraw\<close> are the adapter's methods and
    \<open>swap\<close> is \<^verbatim>\<open>swapClient.swap\<close>: \<open>None\<close> when the call completes, \<open>Some e\<close>
    when it throws \<open>e\<close>. A call that throws is taken to leave the transaction as
    it was.
\<close>

record collaborators =
  quote :: "string \<Rightarrow> string \<Rightarrow> string \<Rightarrow> thrown + swap_quote list"
  getTokenPrice :: "string \<Rightarrow> thrown + rat"
  calculateFee :: "int \<Rightarrow> int"
  refreshOracles :: "string list \<Rightarrow> string \<Rightarrow> thrown option"
  repay :: "string \<Rightarrow> string \<Rightarrow> thrown option"
  withdraw :: "string \<Rightarrow> string \<Rightarrow> string \<Rightarrow> thrown option"
  swap :: "swap_quote \<Rightarrow> string \<Rightarrow> thrown option"

record DeleverageEstimate =
  flashLoanUsdc :: int
  flashLoanFee :: int
  totalRepayment :: int
  swapAmount :: int
  keepCollateral :: int
  estimatedUsdcProfit :: int
  totalProfitUsd :: rat

text \<open>
  \<^verbatim>\<open>quotes.sort((a, b) => Number(b.amountOut) - Number(a.amountOut))[0]\<close>: the sort is
  stable, so this is the first quote among those with the largest output. There is
  none exactly when the list is empty, the case in which the builder throws.
\<close>

definition best_quote :: "swap_quote list \<Rightarrow> swap_quote option" where
  "best_quote qs = (case sort_key (\<lambda>q. - amountOut q) qs of [] \<Rightarrow> None | q # _ \<Rightarrow> Some q)"

text \<open>The arrow of the messages is U+2192, here in UTF-8.\<close>

definition arrow :: string where
  "arrow = [CHR 0xE2, CHR 0x86, CHR 0x92]"

definition calculateDeleverageEstimate ::
  "collaborators \<Rightarrow> PositionInfo \<Rightarrow> thrown + DeleverageEstimate" where
  "calculateDeleverageEstimate env position =
     (let borrowAmount = amount (debt position);
          supplyAmount = amount (collateral position);
          supplyCoinType = assetCoinType (collateral position);
          supplyDecimals = decimals (collateral position);
          flashLoanUsdc = bigint_div (borrowAmount * 1005) 1000;
          flashLoanFee = calculateFee env flashLoanUsdc;
          totalRepayment = flashLoanUsdc + flashLoanFee;
          withdrawAmount = supplyAmount
      in case quote env (bigint_toString withdrawAmount) supplyCoinType USDC_COIN_TYPE of
           Inl e \<Rightarrow> Inl e
         | Inr fullSwapQuotes \<Rightarrow>
             (case best_quote fullSwapQuotes of
                None \<Rightarrow> Inl (Error (''No swap quotes found for '' @ symbol (collateral position)
                                 @ '' '' @ arrow @ '' USDC''))
              | Some fullQuote \<Rightarrow>
                  let fullSwapOut = amountOut fullQuote;
                      fullSwapIn = amountIn fullQuote;
                      targetUsdcOut = bigint_div (totalRepayment * 102) 100
                  in if fullSwapOut = 0 then Inl (RangeError ''Division by zero'')
                     else
                       let requiredSwapIn = bigint_div (targetUsdcOut * fullSwapIn) fullSwapOut;
                           actualSwapIn =
                             (if requiredSwapIn > withdrawAmount then withdrawAmount
                              else requiredSwapIn);
                           keepCollateral = withdrawAmount - actualSwapIn
                       in if fullSwapOut > totalRepayment \<and> fullSwapIn = 0
                          then Inl (RangeError ''Division by zero'')
                          else
                            let estimatedUsdcProfit =
                                  (if fullSwapOut > totalRepayment
                                   then bigint_div (actualSwapIn * fullSwapOut) fullSwapIn
                                          - totalRepayment
                                   else 0)
                            in case getTokenPrice env supplyCoinType of
                                 Inl e \<Rightarrow> Inl e
                               | Inr supplyPrice \<Rightarrow>
                                   Inr \<lparr> flashLoanUsdc = flashLoanUsdc,
                                         flashLoanFee = flashLoanFee,
                                         totalRepayment = totalRepayment,
                                         swapAmount = actualSwapIn,
                                         keepCollateral = keepCollateral,
                                         estimatedUsdcProfit = estimatedUsdcProfit,
                                         totalProfitUsd =
                                           of_int keepCollateral / 10 ^ supplyDecimals * supplyPrice
                                           + of_int estimatedUsdcProfit / 1000000 \<rparr>))"

text \<open>
  The transaction under construction is the list of the commands added so far. The
  handles that the commands pass to one another are named after the variables of the
  source.
\<close>

datatype handle = loanCoin | receipt | withdrawnCoin | coinToSwap | swappedUsdc | flashRepayment

datatype command =
    SetSender string
  | SetGasBudget int
  | BorrowFlashLoan int string
  | RefreshOracles "string list" string
  | Repay string handle string
  | Withdraw string string string
  | SplitCoins handle "int list"
  | Swap swap_quote string handle nat
  | RepayFlashLoan handle handle string
  | TransferObjects "handle list" string
  | LeverageCommands string int rat

text \<open>
  \<^verbatim>\<open>buildDeleverageTransaction(tx, params)\<close> returns the outcome together with the
  transaction as the call leaves it.
\<close>

definition buildDeleverageTransaction ::
  "collaborators \<Rightarrow> string \<Rightarrow> PositionInfo \<Rightarrow> command list
     \<Rightarrow> (thrown + unit) \<times> command list" where
  "buildDeleverageTransaction env userAddress position tx =
     (let supplyCoinType = assetCoinType (collateral position);
          supplyAmount = amount (collateral position)
      in case calculateDeleverageEstimate env position of
           Inl e \<Rightarrow> (Inl e, tx)
         | Inr estimate \<Rightarrow>
             let tx = tx @ [BorrowFlashLoan (flashLoanUsdc estimate) ''usdc'']
             in case refreshOracles env [supplyCoinType, USDC_COIN_TYPE] userAddress of
                  Some e \<Rightarrow> (Inl e, tx)
                | None \<Rightarrow>
             let tx = tx @ [RefreshOracles [supplyCoinType, USDC_COIN_TYPE] userAddress]
             in case repay env USDC_COIN_TYPE userAddress of
                  Some e \<Rightarrow> (Inl e, tx)
                | None \<Rightarrow>
             let tx = tx @ [Repay USDC_COIN_TYPE loanCoin userAddress];
                 withdrawAmount = supplyAmount
             in case withdraw env supplyCoinType (bigint_toString withdrawAmount) userAddress of
                  Some e \<Rightarrow> (Inl e, tx)
                | None \<Rightarrow>
             let tx = tx @ [Withdraw supplyCoinType (bigint_toString withdrawAmount) userAddress]
             in case quote env (bigint_toString (swapAmount estimate)) supplyCoinType
                       USDC_COIN_TYPE of
                  Inl e \<Rightarrow> (Inl e, tx)
                | Inr swapQuotes \<Rightarrow>
             (case best_quote swapQuotes of
                None \<Rightarrow> (Inl (Error (''No swap quotes for '' @ symbol (collateral position)
                                 @ '' '' @ arrow @ '' USDC'')), tx)
              | Some bestQuote \<Rightarrow>
                  let tx = tx @ [SplitCoins withdrawnCoin [swapAmount estimate]]
                  in case swap env bestQuote userAddress of
                       Some e \<Rightarrow> (Inl e, tx)
                     | None \<Rightarrow>
                         (Inr (),
                          tx @ [Swap bestQuote userAddress coinToSwap 100,
                                SplitCoins swappedUsdc [totalRepayment estimate],
                                RepayFlashLoan flashRepayment receipt ''usdc'',
                                TransferObjects [withdrawnCoin, swappedUsdc, loanCoin]
                                  userAddress])))"

subsection \<open>The facade (\<^verbatim>\<open>src/sdk.ts\<close>)\<close>

datatype LendingProtocol = Suilend | Navi


text \<open>A JavaScript number that may be \<^verbatim>\<open>Infinity\<close>.\<close>

datatype js_number = Number rat | PositiveInfinity

text \<open>
  \<^verbatim>\<open>AccountPortfolio\<close> and \<^verbatim>\<open>StrategyResult\<close> of \<^verbatim>\<open>src/types.ts\<close>, without the optional
  fields that the facade never sets. The positions of a portfolio are kept as the
  list of their coin types.
\<close>

record AccountPortfolio =
  portfolioProtocol :: LendingProtocol
  portfolioAddress :: string
  portfolioHealthFactor :: js_number
  portfolioNetValueUsd :: rat
  totalCollateralUsd :: rat
  totalDebtUsd :: rat
  positions :: "string list"


text \<open>
  An adapter as the facade uses it (\<^verbatim>\<open>ILendingProtocol\<close>): the outcomes of its queries
  and of the methods that add commands to a transaction.
\<close>

record lending_adapter =
  getPosition :: "string \<Rightarrow> thrown + PositionInfo option"
  getAccountPortfolio :: "string \<Rightarrow> thrown + AccountPortfolio"
  adapterRefreshOracles :: "string list \<Rightarrow> string \<Rightarrow> thrown option"
  adapterRepay :: "string \<Rightarrow> string \<Rightarrow> thrown option"
  adapterWithdraw :: "string \<Rightarrow> string \<Rightarrow> string \<Rightarrow> thrown option"




text \<open>
  The state of a \<^verbatim>\<open>DefiDashSDK\<close> object: \<^verbatim>\<open>initialized\<close>, \<^verbatim>\<open>keypair\<close> (given by the
  address of its public key), \<^verbatim>\<open>_userAddress\<close> and the \<^verbatim>\<open>protocols\<close> map.
\<close>

record DefiDashSDK =
  initialized :: bool
  keypair :: "string option"
  userAddress_field :: "string option"
  protocols :: "LendingProtocol \<Rightarrow> lending_adapter option"

definition new_DefiDashSDK :: DefiDashSDK where
  "new_DefiDashSDK =
     \<lparr> initialized = False, keypair = None, userAddress_field = None,
       protocols = (\<lambda>p. None) \<rparr>"

text \<open>
  \<^verbatim>\<open>initialize(suiClient, keypairOrAddress)\<close>. The two adapters are given by the outcomes
  of their own \<^verbatim>\<open>initialize\<close>; the object is mutated as far as the call gets.
\<close>

definition initialize ::
  "DefiDashSDK \<Rightarrow> string + string \<Rightarrow> thrown + lending_adapter \<Rightarrow> thrown + lending_adapter
     \<Rightarrow> (thrown + unit) \<times> DefiDashSDK" where
  "initialize sdk keypairOrAddress suilend navi =
     (let sdk = (case keypairOrAddress of
                   Inr address \<Rightarrow> sdk \<lparr> userAddress_field := Some address \<rparr>
                 | Inl keypairAddress \<Rightarrow>
                     sdk \<lparr> keypair := Some keypairAddress,
                           userAddress_field := Some keypairAddress \<rparr>)
      in case suilend of
           Inl e \<Rightarrow> (Inl e, sdk)
         | Inr suilendAdapter \<Rightarrow>
             let sdk = sdk \<lparr> protocols := (protocols sdk) (Suilend := Some suilendAdapter) \<rparr>
             in case navi of
                  Inl e \<Rightarrow> (Inl e, sdk)
                | Inr naviAdapter \<Rightarrow>
                    (Inr (),
                     sdk \<lparr> protocols := (protocols sdk) (Navi := Some naviAdapter),
                           initialized := True \<rparr>))"

definition ensureInitialized :: "DefiDashSDK \<Rightarrow> thrown option" where
  "ensureInitialized sdk =
     (if \<not> initialized sdk then Some (Error ''SDK not initialized. Call initialize() first.'')
      else None)"


text \<open>The getter \<^verbatim>\<open>userAddress\<close>: an empty string is falsy.\<close>

definition userAddress :: "DefiDashSDK \<Rightarrow> thrown + string" where
  "userAddress sdk =
     (case userAddress_field sdk of
        None \<Rightarrow> Inl (Error ''User address not set. Call initialize() first.'')
      | Some a \<Rightarrow>
          if a = [] then Inl (Error ''User address not set. Call initialize() first.'')
          else Inr a)"















text \<open>
  \<^verbatim>\<open>getAggregatedPortfolio\<close>. Each protocol is queried inside its own \<^verbatim>\<open>try\<close>, with
  \<^verbatim>\<open>await\<close>; \<^verbatim>\<open>Promise.all\<close> keeps the order of the protocols.
\<close>

definition default_portfolio :: "LendingProtocol \<Rightarrow> string \<Rightarrow> AccountPortfolio" where
  "default_portfolio p address =
     \<lparr> portfolioProtocol = p, portfolioAddress = address,
       portfolioHealthFactor = PositiveInfinity, portfolioNetValueUsd = 0,
       totalCollateralUsd = 0, totalDebtUsd = 0, positions = [] \<rparr>"

definition getAggregatedPortfolio :: "DefiDashSDK \<Rightarrow> thrown + AccountPortfolio list" where
  "getAggregatedPortfolio sdk =
     (case ensureInitialized sdk of
        Some e \<Rightarrow> Inl e
      | None \<Rightarrow>
          let protocolList = [Suilend, Navi]
          in case userAddress sdk of
               Inl e \<Rightarrow> Inl e
             | Inr address \<Rightarrow>
                 Inr (map (\<lambda>p. case protocols sdk p of
                                 Some adapter \<Rightarrow>
                                   (case getAccountPortfolio adapter address of
                                      Inr portfolio \<Rightarrow> portfolio
                                    | Inl e \<Rightarrow> default_portfolio p address)
                               | None \<Rightarrow> default_portfolio p address)
                        protocolList))"

text \<open>
  Concrete inputs for the builder: a debt of 1000 USDC against 100 SUI, and
  collaborators that never throw, with an aggregator that pays one USDC unit for
  \<open>rate\<close> SUI units and a flash-loan fee of \<open>fee\<close> units. At the rate 50 the whole
  collateral fetches 2000 USDC; at the rate 200 it fetches 500 USDC, less than the
  debt.
\<close>

definition SUI_COIN_TYPE :: string where
  "SUI_COIN_TYPE =
     ''0x0000000000000000000000000000000000000000000000000000000000000002::sui::SUI''"

definition example_position :: PositionInfo where
  "example_position =
     \<lparr> collateral = \<lparr> amount = 100000000000, symbol = ''SUI'', assetCoinType = SUI_COIN_TYPE,
                       decimals = 9, valueUsd = 500 \<rparr>,
       debt = \<lparr> amount = 1000000000, symbol = ''USDC'', assetCoinType = USDC_COIN_TYPE,
                 decimals = 6, valueUsd = 1000 \<rparr>,
       positionNetValueUsd = - 500 \<rparr>"

definition constant_rate_collaborators :: "int \<Rightarrow> nat \<Rightarrow> collaborators" where
  "constant_rate_collaborators rate fee =
     \<lparr> quote = (\<lambda>amountIn coinTypeIn coinTypeOut.
                  case BigInt amountIn of
                    Inl e \<Rightarrow> Inl e
                  | Inr n \<Rightarrow> Inr [\<lparr> amountIn = n, amountOut = n div rate \<rparr>]),
       getTokenPrice = (\<lambda>coinType. Inr 5),
       calculateFee = (\<lambda>a. int fee),
       refreshOracles = (\<lambda>coinTypes user. None),
       repay = (\<lambda>coinType user. None),
       withdraw = (\<lambda>coinType amt user. None),
       swap = (\<lambda>q user. None) \<rparr>"




text \<open>
  Concrete inputs for the facade: an adapter that answers its queries, one whose
  queries throw, and services of which the transport answers with a given status
  (\<open>None\<close>: the call rejects).
\<close>

definition example_portfolio :: AccountPortfolio where
  "example_portfolio =
     \<lparr> portfolioProtocol = Suilend, portfolioAddress = ''0xabc'',
       portfolioHealthFactor = Number (33 / 10), portfolioNetValueUsd = 1500,
       totalCollateralUsd = 2000, totalDebtUsd = 500,
       positions = [''0x2::sui::SUI'', ''0xdba3::usdc::USDC''] \<rparr>"

definition answering_adapter :: lending_adapter where
  "answering_adapter =
     \<lparr> getPosition = (\<lambda>address. Inr (Some example_position)),
       getAccountPortfolio = (\<lambda>address. Inr example_portfolio),
       adapterRefreshOracles = (\<lambda>coinTypes user. None),
       adapterRepay = (\<lambda>ct user. None),
       adapterWithdraw = (\<lambda>ct amt user. None) \<rparr>"

definition failing_adapter :: lending_adapter where
  "failing_adapter =
     \<lparr> getPosition = (\<lambda>address. Inl (Error ''fetch failed'')),
       getAccountPortfolio = (\<lambda>address. Inl (Error ''fetch failed'')),
       adapterRefreshOracles = (\<lambda>coinTypes user. Some (Error ''fetch failed'')),
       adapterRepay = (\<lambda>ct user. Some (Error ''fetch failed'')),
       adapterWithdraw = (\<lambda>ct amt user. Some (Error ''fetch failed'')) \<rparr>"






section \<open>Lemmas and theorems\<close>

subsection \<open>Unit conversion\<close>

lemma digit_char_props:
  assumes "d < 10"
  shows "is_digit (digit_char d) \<and> digit_value (digit_char d) = d"
proof -
  from assms have "d \<in> {0, 1, 2, 3, 4, 5, 6, 7, 8, 9}" by auto
  then show ?thesis
    by (auto simp: is_digit_def digit_char_def digit_value_def decimal_digits_def)
qed

lemma is_digit_zero [simp]: "is_digit CHR ''0''" and digit_value_zero [simp]: "digit_value CHR ''0'' = 0"
  and not_digit_dot [simp]: "\<not> is_digit CHR ''.''"
  by (simp_all add: is_digit_def digit_value_def decimal_digits_def)

lemma digits_value_snoc: "digits_value (s @ [c]) = 10 * digits_value s + digit_value c"
  by (simp add: digits_value_def)

lemma nat_toString_digits: "list_all is_digit (nat_toString n) \<and> nat_toString n \<noteq> [] \<and> digits_value (nat_toString n) = n"
proof (induction n rule: nat_toString.induct)
  case (1 n)
  show ?case
  proof (cases "n < 10")
    case True
    then show ?thesis using digit_char_props [of n]
      by (subst (1 2 3) nat_toString.simps) (simp add: digits_value_def)
  next
    case False
    then have "n mod 10 < 10" by simp
    with False 1 digit_char_props [of "n mod 10"] show ?thesis
      by (subst (1 2 3) nat_toString.simps) (simp add: digits_value_snoc)
  qed
qed

lemma digits_value_zeros: "digits_value (replicate k CHR ''0'' @ s) = digits_value s"
proof -
  have "foldl (\<lambda>acc c. 10 * acc + digit_value c) 0 (replicate k CHR ''0'') = 0"
    by (induction k) simp_all
  then show ?thesis by (simp add: digits_value_def)
qed

lemma all_zero_replicate: "all_zero s \<Longrightarrow> s = replicate (length s) CHR ''0''"
  by (induction s) (simp_all add: all_zero_def)

lemma digits_no_dot: "list_all is_digit s \<Longrightarrow> CHR ''.'' \<notin> set s"
  by (induction s) auto

text \<open>The regular expression never matches inside the integer part.\<close>

lemma replace_dot_zeros_integer_part:
  "CHR ''.'' \<notin> set i \<Longrightarrow> replace_dot_zeros (i @ CHR ''.'' # f) = i @ replace_dot_zeros (CHR ''.'' # f)"
proof (induction i)
  case Nil
  then show ?case by simp
next
  case (Cons c i)
  then have "\<not> all_zero (c # i @ CHR ''.'' # f)" and "c \<noteq> CHR ''.''"
    by (auto simp: all_zero_def)
  with Cons show ?case by simp
qed

lemma replace_dot_zeros_trailing:
  "CHR ''.'' \<notin> set f \<Longrightarrow>
     f = replace_dot_zeros f @ replicate (length f - length (replace_dot_zeros f)) CHR ''0''"
proof (induction f)
  case Nil
  then show ?case by simp
next
  case (Cons c f)
  show ?case
  proof (cases "all_zero (c # f)")
    case True
    with Cons.prems show ?thesis using all_zero_replicate [OF True] by simp
  next
    case False
    moreover from Cons.prems have "c \<noteq> CHR ''.''" by auto
    ultimately show ?thesis using Cons by (simp add: Suc_diff_le)
  qed
qed

lemma split_from_no_sep:
  "c \<notin> set s \<Longrightarrow> split_from [c] acc s = [acc @ s]"
  by (induction s arbitrary: acc) auto

lemma split_from_one_sep:
  "c \<notin> set i \<Longrightarrow> split_from [c] acc (i @ c # r) = (acc @ i) # split_from [c] [] r"
  by (induction i arbitrary: acc) auto


lemma set_replace_dot_zeros: "set (replace_dot_zeros f) \<subseteq> set f"
  by (induction f) auto

lemma BigInt_digits: "list_all is_digit s \<Longrightarrow> BigInt s = Inr (int (digits_value s))"
  by (simp add: BigInt_def)

lemma parseUnits_integer:
  assumes "CHR ''.'' \<notin> set i"
  shows "parseUnits i d = BigInt (i @ replicate d CHR ''0'')"
  using assms by (simp add: parseUnits_def split_def split_from_no_sep padEnd_def)

lemma parseUnits_fraction:
  assumes "CHR ''.'' \<notin> set i" and "CHR ''.'' \<notin> set r"
  shows "parseUnits (i @ CHR ''.'' # r) d
           = BigInt (i @ take d (r @ replicate (d - length r) CHR ''0''))"
  using assms split_from_one_sep [of "CHR ''.''" i "[]" r]
  by (simp add: parseUnits_def split_def split_from_no_sep padEnd_def)

text \<open>
  Claim C7. For every non-negative integer \<open>raw\<close> and every number of decimals \<open>d\<close>,
  parsing the formatted amount gives \<open>raw\<close> back: \<^verbatim>\<open>parseUnits(formatUnits(raw, d), d)\<close>
  returns \<open>raw\<close> (and does not throw).
\<close>

theorem units_round_trip:
  assumes "0 \<le> raw"
  shows "parseUnits (formatUnits raw d) d = Inr raw"
proof -
  define n where "n = nat raw"
  define s where "s = nat_toString n"
  have s: "list_all is_digit s" "s \<noteq> []" "digits_value s = n"
    using nat_toString_digits [of n] by (simp_all add: s_def)
  have str: "bigint_toString raw = s"
    using assms by (simp add: bigint_toString_def s_def n_def)
  have raw: "int n = raw" using assms by (simp add: n_def)
  show ?thesis
  proof (cases "d = 0")
    case True
    have "parseUnits s 0 = BigInt (s @ replicate 0 CHR ''0'')"
      by (rule parseUnits_integer) (rule digits_no_dot [OF s(1)])
    then show ?thesis
      using True s raw by (simp add: formatUnits_def str BigInt_digits)
  next
    case False
    define pad where "pad = padStart (d + 1) CHR ''0'' s"
    define t where "t = length pad - d"
    define i where "i = take t pad"
    define f where "f = drop t pad"
    have pad: "list_all is_digit pad" "d + 1 \<le> length pad" "digits_value pad = n"
      using s by (auto simp: pad_def padStart_def digits_value_zeros list_all_iff)
    have parts: "i @ f = pad" "length f = d" "i \<noteq> []"
      using pad(2) by (auto simp: i_def f_def t_def)
    have nodot: "CHR ''.'' \<notin> set i" "CHR ''.'' \<notin> set f"
      using digits_no_dot [OF pad(1)] by (auto simp: i_def f_def dest: in_set_takeD in_set_dropD)
    have whole: "BigInt (i @ f) = Inr raw"
      using pad raw by (simp add: parts BigInt_digits)
    have fmt: "formatUnits raw d =
      (let r = replace_dot_zeros (i @ CHR ''.'' # f) in if r = [] then ''0'' else r)"
      using False by (simp add: formatUnits_def str Let_def pad_def i_def f_def t_def)
    have rep: "replace_dot_zeros (i @ CHR ''.'' # f) =
      i @ (if all_zero f then [] else CHR ''.'' # replace_dot_zeros f)"
      using nodot(1) parts(2) False by (auto simp: replace_dot_zeros_integer_part)
    show ?thesis
    proof (cases "all_zero f")
      case True
      then have "formatUnits raw d = i" using parts(3) by (simp add: fmt rep)
      moreover have "f = replicate d CHR ''0''"
        using all_zero_replicate [OF True] parts(2) by simp
      ultimately show ?thesis
        using parseUnits_integer [OF nodot(1), of d] whole by simp
    next
      case nz: False
      define r where "r = replace_dot_zeros f"
      have "formatUnits raw d = i @ CHR ''.'' # r" using nz by (simp add: fmt rep r_def)
      moreover have "CHR ''.'' \<notin> set r"
        using nodot(2) set_replace_dot_zeros [of f] by (auto simp: r_def)
      moreover have "r @ replicate (d - length r) CHR ''0'' = f"
        using replace_dot_zeros_trailing [OF nodot(2)] parts(2) by (simp add: r_def)
      ultimately show ?thesis
        using parseUnits_fraction [OF nodot(1), of r d] whole parts(2) by simp
    qed
  qed
qed


theorem units_round_trip_witness:
  "formatUnits 1500000 6 = ''1.5'' \<and> parseUnits ''1.5'' 6 = Inr 1500000"
proof -
  have "formatUnits 1500000 6 = ''1.5''"
    by (simp add: formatUnits_def bigint_toString_def nat_toString.simps digit_char_def
        decimal_digits_def padStart_def all_zero_def)
  then show ?thesis using units_round_trip [of 1500000 6] by simp
qed

subsection \<open>Coin type normalisation\<close>

lemma prefix_single_iff [simp]: "prefix [c] cs \<longleftrightarrow> (\<exists>r. cs = c # r)"
  by (cases cs) auto

lemma separable_no_separator: "separable s \<Longrightarrow> no_separator s"
  by (induction s rule: separable.induct) auto

lemma split_from_no_separator:
  "no_separator s \<Longrightarrow> split_from ''::'' acc s = [acc @ s]"
proof (induction s arbitrary: acc)
  case Nil
  then show ?case by simp
next
  case (Cons c s)
  then show ?case by (cases s) auto
qed

lemma split_from_separable:
  "separable a \<Longrightarrow> split_from ''::'' acc (a @ ''::'' @ r) = (acc @ a) # split_from ''::'' [] r"
proof (induction a arbitrary: acc rule: separable.induct)
  case 1
  then show ?case by simp
next
  case (2 c)
  then show ?case by simp
next
  case (3 a b cs)
  then show ?case by auto
qed

text \<open>What the first piece of a split is, and what follows it.\<close>

lemma split_from_first:
  "\<exists>p. hd (split_from ''::'' acc x) = acc @ p
     \<and> (tl (split_from ''::'' acc x) = [] \<and> x = p \<and> no_separator p
        \<or> (\<exists>r. x = p @ ''::'' @ r \<and> separable p
              \<and> tl (split_from ''::'' acc x) = split_from ''::'' [] r))"
proof (induction x arbitrary: acc)
  case Nil
  then show ?case by simp
next
  case (Cons c cs)
  show ?case
  proof (cases "prefix ''::'' (c # cs)")
    case True
    then obtain r where "c = CHR '':''" "cs = CHR '':'' # r" by auto
    then show ?thesis by (intro exI [of _ "[]"]) auto
  next
    case False
    from Cons [of "acc @ [c]"] obtain p where
      p: "hd (split_from ''::'' (acc @ [c]) cs) = (acc @ [c]) @ p"
        "tl (split_from ''::'' (acc @ [c]) cs) = [] \<and> cs = p \<and> no_separator p
         \<or> (\<exists>r. cs = p @ ''::'' @ r \<and> separable p
              \<and> tl (split_from ''::'' (acc @ [c]) cs) = split_from ''::'' [] r)"
      by blast
    have step: "split_from ''::'' acc (c # cs) = split_from ''::'' (acc @ [c]) cs"
      using False by auto
    from p(2) show ?thesis
    proof
      assume a: "tl (split_from ''::'' (acc @ [c]) cs) = [] \<and> cs = p \<and> no_separator p"
      then have "no_separator (c # p)" using False by (cases p) auto
      with a p(1) show ?thesis unfolding step by (intro exI [of _ "c # p"]) auto
    next
      assume "\<exists>r. cs = p @ ''::'' @ r \<and> separable p
              \<and> tl (split_from ''::'' (acc @ [c]) cs) = split_from ''::'' [] r"
      then obtain r where r: "cs = p @ ''::'' @ r" "separable p"
        "tl (split_from ''::'' (acc @ [c]) cs) = split_from ''::'' [] r" by blast
      have "separable (c # p)" using False r(1,2) by (cases p) auto
      with r p(1) show ?thesis unfolding step by (intro exI [of _ "c # p"]) auto
    qed
  qed
qed

lemma split_from_nonempty [simp]: "split_from sep acc x \<noteq> []" "[] \<noteq> split_from sep acc x"
  by (induction sep acc x rule: split_from.induct) auto


lemma split_three_parts:
  assumes "split ''::'' x = [p0, p1, p2]"
  shows "x = p0 @ ''::'' @ p1 @ ''::'' @ p2 \<and> separable p0 \<and> separable p1 \<and> no_separator p2"
proof -
  have s: "split_from ''::'' [] x = [p0, p1, p2]"
    using assms by (simp add: split_def)
  from split_from_first [of "[]" x] s obtain r where
    r: "x = p0 @ ''::'' @ r" "separable p0" "split_from ''::'' [] r = [p1, p2]"
    by auto
  from split_from_first [of "[]" r] r(3) obtain r' where
    r': "r = p1 @ ''::'' @ r'" "separable p1" "split_from ''::'' [] r' = [p2]"
    by auto
  from split_from_first [of "[]" r'] r'(3) have "r' = p2 \<and> no_separator p2"
    by auto
  with r r' show ?thesis by simp
qed

lemma split_joined:
  assumes "separable p0" "separable p1" "no_separator p2"
  shows "split ''::'' (p0 @ ''::'' @ p1 @ ''::'' @ p2) = [p0, p1, p2]"
  using assms split_from_separable [of p0 "[]" "p1 @ ''::'' @ p2"]
    split_from_separable [of p1 "[]" p2] split_from_no_separator [of p2 "[]"]
  by (simp add: split_def)

text \<open>A string that is not separable and has no final colon contains the separator.\<close>

lemma first_separator:
  "\<not> separable s \<Longrightarrow> \<not> ends_with_colon s \<Longrightarrow>
     \<exists>a t. s = a @ ''::'' @ t \<and> separable a \<and> \<not> ends_with_colon t"
proof (induction s rule: separable.induct)
  case 1
  then show ?case by simp
next
  case (2 c)
  then show ?case by (simp add: ends_with_colon_def)
next
  case (3 a b cs)
  show ?case
  proof (cases "a = CHR '':'' \<and> b = CHR '':''")
    case True
    with 3(3) have "a # b # cs = [] @ ''::'' @ cs \<and> separable [] \<and> \<not> ends_with_colon cs"
      by (auto simp: ends_with_colon_def)
    then show ?thesis by blast
  next
    case False
    with 3(2) have "\<not> separable (b # cs)" by simp
    moreover from 3(3) have "\<not> ends_with_colon (b # cs)" by (simp add: ends_with_colon_def)
    ultimately obtain a' t where
      at: "b # cs = a' @ ''::'' @ t" "separable a'" "\<not> ends_with_colon t"
      using 3(1) False by blast
    have "separable (a # a')"
      using False at(1,2) by (cases a') auto
    with at show ?thesis by (intro exI [of _ "a # a'"] exI [of _ t]) simp
  qed
qed

text \<open>Text in front of a separator, if it has no final colon, cannot remove pieces.\<close>

lemma split_from_length_ge:
  "\<not> ends_with_colon t \<Longrightarrow>
     Suc (length (split_from ''::'' [] r)) \<le> length (split_from ''::'' acc (t @ ''::'' @ r))"
proof (induction t arbitrary: acc rule: length_induct)
  case (1 t)
  show ?case
  proof (cases t)
    case Nil
    then show ?thesis by simp
  next
    case (Cons c cs)
    show ?thesis
    proof (cases "prefix ''::'' (t @ ''::'' @ r)")
      case True
      with Cons 1(2) obtain cs' where cs': "c = CHR '':''" "cs = CHR '':'' # cs'"
        by (cases cs) (auto simp: ends_with_colon_def)
      with 1(2) Cons have "\<not> ends_with_colon cs'" by (auto simp: ends_with_colon_def split: if_splits)
      moreover have "length cs' < length t" using Cons cs' by simp
      ultimately have "Suc (length (split_from ''::'' [] r))
          \<le> length (split_from ''::'' [] (cs' @ ''::'' @ r))"
        using 1(1) by blast
      then show ?thesis using Cons cs' by simp
    next
      case False
      from 1(2) Cons have "\<not> ends_with_colon cs" by (auto simp: ends_with_colon_def split: if_splits)
      moreover have "length cs < length t" using Cons by simp
      ultimately have "Suc (length (split_from ''::'' [] r))
          \<le> length (split_from ''::'' (acc @ [c]) (cs @ ''::'' @ r))"
        using 1(1) by blast
      moreover have "split_from ''::'' acc (t @ ''::'' @ r) = split_from ''::'' (acc @ [c]) (cs @ ''::'' @ r)"
        using False Cons by auto
      ultimately show ?thesis by simp
    qed
  qed
qed


lemma normalizeCoinType_parts:
  assumes "split ''::'' x = [p0, p1, p2]"
  shows "normalizeCoinType x =
    (''0x'' @ padStart 64 CHR ''0'' (replace_first ''0x'' [] p0)) @ ''::'' @ p1 @ ''::'' @ p2"
  using assms by (simp add: normalizeCoinType_def Let_def)

lemma normalizeCoinType_malformed:
  "length (split ''::'' x) \<noteq> 3 \<Longrightarrow> normalizeCoinType x = x"
  by (simp add: normalizeCoinType_def Let_def)

lemma length_three: "length xs = 3 \<Longrightarrow> \<exists>a b c. xs = [a, b, c]"
  by (cases xs; cases "tl xs"; cases "tl (tl xs)") auto

lemma padded_no_final_colon:
  "\<not> ends_with_colon pkg \<Longrightarrow> \<not> ends_with_colon (''0x'' @ padStart 64 CHR ''0'' pkg)"
  by (cases "pkg = []") (auto simp: ends_with_colon_def padStart_def)

text \<open>
  Claim C8, as amended. An identifier that does not split into exactly three parts at
  \<^verbatim>\<open>::\<close> is returned unchanged. Normalisation is idempotent on every such identifier,
  and on every three-part identifier whose package part, once its first \<^verbatim>\<open>0x\<close> is
  removed, does not end with a colon (so in particular whenever the package part
  contains no colon at all).
\<close>

theorem normalizeCoinType_idempotent:
  "(length (split ''::'' x) \<noteq> 3 \<longrightarrow> normalizeCoinType x = x)
   \<and> ((length (split ''::'' x) = 3 \<longrightarrow> \<not> ends_with_colon (stripped_package x))
        \<longrightarrow> normalizeCoinType (normalizeCoinType x) = normalizeCoinType x)"
proof (intro conjI impI)
  assume "length (split ''::'' x) \<noteq> 3"
  then show "normalizeCoinType x = x" by (rule normalizeCoinType_malformed)
next
  assume h: "length (split ''::'' x) = 3 \<longrightarrow> \<not> ends_with_colon (stripped_package x)"
  show "normalizeCoinType (normalizeCoinType x) = normalizeCoinType x"
  proof (cases "length (split ''::'' x) = 3")
    case False
    then show ?thesis by (simp add: normalizeCoinType_malformed)
  next
    case True
    then obtain p0 p1 p2 where parts: "split ''::'' x = [p0, p1, p2]"
      using length_three by blast
    define q where "q = padStart 64 CHR ''0'' (replace_first ''0x'' [] p0)"
    have nx: "normalizeCoinType x = (''0x'' @ q) @ ''::'' @ p1 @ ''::'' @ p2"
      using normalizeCoinType_parts [OF parts] by (simp add: q_def)
    have p: "separable p1" "no_separator p2"
      using split_three_parts [OF parts] by simp_all
    have two: "split_from ''::'' [] (p1 @ ''::'' @ p2) = [p1, p2]"
      using split_from_separable [of p1 "[]" p2] split_from_no_separator [of p2 "[]"] p by simp
    have nocolon: "\<not> ends_with_colon (''0x'' @ q)"
      using h True parts padded_no_final_colon by (simp add: stripped_package_def q_def)
    show ?thesis
    proof (cases "separable (''0x'' @ q)")
      case True
      then have "split ''::'' (normalizeCoinType x) = [''0x'' @ q, p1, p2]"
        unfolding nx using p by (rule split_joined)
      then have "normalizeCoinType (normalizeCoinType x) =
          (''0x'' @ padStart 64 CHR ''0'' (replace_first ''0x'' [] (''0x'' @ q)))
            @ ''::'' @ p1 @ ''::'' @ p2"
        by (rule normalizeCoinType_parts)
      moreover have "replace_first ''0x'' [] (''0x'' @ q) = q" by simp
      moreover have "padStart 64 CHR ''0'' q = q" by (simp add: q_def padStart_def)
      ultimately show ?thesis by (simp add: nx)
    next
      case False
      from first_separator [OF False nocolon] obtain a t where
        at: "''0x'' @ q = a @ ''::'' @ t" "separable a" "\<not> ends_with_colon t" by blast
      have "normalizeCoinType x = a @ ''::'' @ (t @ ''::'' @ (p1 @ ''::'' @ p2))"
        unfolding nx at(1) by simp
      then have "split_from ''::'' [] (normalizeCoinType x)
          = a # split_from ''::'' [] (t @ ''::'' @ (p1 @ ''::'' @ p2))"
        using split_from_separable [OF at(2), of "[]"] by simp
      moreover have "Suc (length (split_from ''::'' [] (p1 @ ''::'' @ p2)))
          \<le> length (split_from ''::'' [] (t @ ''::'' @ (p1 @ ''::'' @ p2)))"
        using at(3) by (rule split_from_length_ge)
      ultimately have "length (split ''::'' (normalizeCoinType x)) \<noteq> 3"
        using two by (simp add: split_def)
      then show ?thesis by (rule normalizeCoinType_malformed)
    qed
  qed
qed

theorem normalizeCoinType_idempotent_witness:
  "normalizeCoinType ''a::b'' = ''a::b''
   \<and> normalizeCoinType ''0x2::sui::SUI'' = ''0x'' @ replicate 63 CHR ''0'' @ ''2::sui::SUI''
   \<and> normalizeCoinType (normalizeCoinType ''0x2::sui::SUI'') = normalizeCoinType ''0x2::sui::SUI''"
proof -
  have a: "length (split ''::'' ''a::b'') \<noteq> 3" by (simp add: split_def)
  have b: "length (split ''::'' ''0x2::sui::SUI'') = 3 \<longrightarrow> \<not> ends_with_colon (stripped_package ''0x2::sui::SUI'')"
    by (simp add: split_def stripped_package_def ends_with_colon_def)
  have c: "normalizeCoinType ''0x2::sui::SUI'' = ''0x'' @ replicate 63 CHR ''0'' @ ''2::sui::SUI''"
    by (simp add: normalizeCoinType_def split_def padStart_def)
  from a b c normalizeCoinType_idempotent [of "''a::b''"] normalizeCoinType_idempotent [of "''0x2::sui::SUI''"]
  show ?thesis by blast
qed

text \<open>
  The restriction is needed: the package part \<^verbatim>\<open>:0x\<close> is padded to 63 zeros and a
  colon, which runs into the separator that follows; the second pass then splits one
  place earlier and pads the package to 64 zeros.
\<close>

theorem normalizeCoinType_not_idempotent:
  "normalizeCoinType '':0x::b::c'' = ''0x'' @ replicate 63 CHR ''0'' @ '':::b::c''
   \<and> normalizeCoinType (normalizeCoinType '':0x::b::c'') = ''0x'' @ replicate 64 CHR ''0'' @ '':::b::c''
   \<and> normalizeCoinType (normalizeCoinType '':0x::b::c'') \<noteq> normalizeCoinType '':0x::b::c''"
proof -
  have a: "normalizeCoinType '':0x::b::c'' = ''0x'' @ replicate 63 CHR ''0'' @ '':::b::c''"
    by (simp add: normalizeCoinType_def split_def padStart_def eval_nat_numeral)
  have b: "normalizeCoinType (''0x'' @ replicate 63 CHR ''0'' @ '':::b::c'')
      = ''0x'' @ replicate 64 CHR ''0'' @ '':::b::c''"
    by (simp add: normalizeCoinType_def split_def padStart_def eval_nat_numeral)
  have c: "''0x'' @ replicate 64 CHR ''0'' @ '':::b::c'' \<noteq> ''0x'' @ replicate 63 CHR ''0'' @ '':::b::c''"
    by (simp add: eval_nat_numeral)
  from a b c show ?thesis by simp
qed

subsection \<open>BigNumber division\<close>

lemma round_half_up_of_int [simp]: "round_half_up (of_int k) = k"
proof -
  have "\<lfloor>(of_int k :: rat) + 1 / 2\<rfloor> = k" by linarith
  moreover have "\<lfloor>- (of_int k :: rat) + 1 / 2\<rfloor> = - k" by linarith
  ultimately show ?thesis by (simp add: round_half_up_def)
qed

lemma round_half_up_error: "\<bar>of_int (round_half_up q) - q\<bar> \<le> 1 / 2"
proof (cases "0 \<le> q")
  case True
  then have e: "round_half_up q = \<lfloor>q + 1 / 2\<rfloor>" by (simp add: round_half_up_def)
  have "of_int \<lfloor>q + 1 / 2\<rfloor> \<le> q + 1 / 2" "q + 1 / 2 < of_int \<lfloor>q + 1 / 2\<rfloor> + 1"
    by linarith+
  then show ?thesis unfolding e by linarith
next
  case False
  then have e: "round_half_up q = - \<lfloor>- q + 1 / 2\<rfloor>" by (simp add: round_half_up_def)
  have "of_int \<lfloor>- q + 1 / 2\<rfloor> \<le> - q + 1 / 2" "- q + 1 / 2 < of_int \<lfloor>- q + 1 / 2\<rfloor> + 1"
    by linarith+
  then show ?thesis unfolding e of_int_minus by linarith
qed

text \<open>The quotient is exact whenever it has at most \<open>DECIMAL_PLACES\<close> decimals.\<close>

lemma bn_div_exact:
  assumes "y \<noteq> 0" and "x * 10 ^ DECIMAL_PLACES = of_int k * y"
  shows "bn_div x y = x / y"
proof -
  define s :: rat where "s = 10 ^ DECIMAL_PLACES"
  have s: "s \<noteq> 0" by (simp add: s_def)
  have "x / y * s = of_int k"
    using assms by (simp add: field_simps s_def)
  then have "bn_div x y = x / y * s / s"
    by (simp add: bn_div_def s_def)
  also have "\<dots> = x / y" using s by simp
  finally show ?thesis .
qed

text \<open>Otherwise it is off by at most half a unit of the last place.\<close>

lemma bn_div_error:
  "\<bar>bn_div x y - x / y\<bar> \<le> 1 / (2 * 10 ^ DECIMAL_PLACES)"
proof -
  define s :: rat where "s = 10 ^ DECIMAL_PLACES"
  have s: "0 < s" by (simp add: s_def)
  define r where "r = rat_of_int (round_half_up (x / y * s))"
  have "\<bar>r - x / y * s\<bar> \<le> 1 / 2"
    unfolding r_def by (rule round_half_up_error)
  then have "\<bar>r - x / y * s\<bar> / s \<le> (1 / 2) / s"
    using s by (rule_tac divide_right_mono) auto
  moreover have "\<bar>r - x / y * s\<bar> / s = \<bar>r / s - x / y\<bar>"
  proof -
    have "r / s - x / y = (r - x / y * s) / s" using s by (simp add: field_simps)
    then show ?thesis using s by (simp add: abs_divide)
  qed
  moreover have "(1 / 2) / s = 1 / (2 * s)" by simp
  ultimately have "\<bar>r / s - x / y\<bar> \<le> 1 / (2 * s)" by simp
  then show ?thesis by (simp add: bn_div_def r_def s_def)
qed

subsection \<open>Borrow compounding\<close>

lemma compounded_borrow_error:
  assumes "origin \<noteq> 0"
  shows "\<bar>calculateCompoundedBorrow raw origin current - raw * (current / origin)\<bar>
           \<le> \<bar>raw\<bar> / (2 * 10 ^ DECIMAL_PLACES)"
proof -
  have "calculateCompoundedBorrow raw origin current - raw * (current / origin)
          = raw * (bn_div current origin - current / origin)"
    using assms by (simp add: calculateCompoundedBorrow_def right_diff_distrib)
  then have "\<bar>calculateCompoundedBorrow raw origin current - raw * (current / origin)\<bar>
          = \<bar>raw\<bar> * \<bar>bn_div current origin - current / origin\<bar>"
    by (simp add: abs_mult)
  also have "\<dots> \<le> \<bar>raw\<bar> * (1 / (2 * 10 ^ DECIMAL_PLACES))"
    by (rule mult_left_mono [OF bn_div_error]) simp
  finally show ?thesis by simp
qed

text \<open>
  Claim C4. The owed amount is the raw amount times the quotient of the current by
  the original cumulative rate, where the quotient is the one the decimal library
  computes: the exact quotient whenever that has at most 20 decimals, and within
  half a unit of the 20th decimal otherwise, so that the owed amount is within
  \<open>\<bar>raw\<bar> / (2 * 10^20)\<close> of the exact product. With an original rate of zero the raw
  amount comes back unchanged. The example of the specification: raw \<open>10^18\<close> at
  rates \<open>10^18\<close> and \<open>1.05 * 10^18\<close> owes \<open>1.05 * 10^18\<close>.
\<close>

theorem compounded_borrow_formula:
  "(origin = 0 \<longrightarrow> calculateCompoundedBorrow raw origin current = raw)
   \<and> (origin \<noteq> 0 \<longrightarrow>
        calculateCompoundedBorrow raw origin current = raw * bn_div current origin
        \<and> \<bar>calculateCompoundedBorrow raw origin current - raw * (current / origin)\<bar>
             \<le> \<bar>raw\<bar> / (2 * 10 ^ 20))
   \<and> (origin \<noteq> 0 \<and> (\<exists>k. current * 10 ^ 20 = of_int k * origin) \<longrightarrow>
        calculateCompoundedBorrow raw origin current = raw * (current / origin))
   \<and> calculateCompoundedBorrow (10 ^ 18) (10 ^ 18) (105 * 10 ^ 16) = 105 * 10 ^ 16"
proof (intro conjI impI)
  assume "origin = 0"
  then show "calculateCompoundedBorrow raw origin current = raw"
    by (simp add: calculateCompoundedBorrow_def)
next
  assume "origin \<noteq> 0"
  then show "calculateCompoundedBorrow raw origin current = raw * bn_div current origin"
    by (simp add: calculateCompoundedBorrow_def)
next
  assume "origin \<noteq> 0"
  from compounded_borrow_error [OF this, of raw current]
  show "\<bar>calculateCompoundedBorrow raw origin current - raw * (current / origin)\<bar>
          \<le> \<bar>raw\<bar> / (2 * 10 ^ 20)"
    by (simp add: DECIMAL_PLACES_def)
next
  assume a: "origin \<noteq> 0 \<and> (\<exists>k. current * 10 ^ 20 = of_int k * origin)"
  then obtain k where "current * 10 ^ DECIMAL_PLACES = of_int k * origin"
    by (auto simp: DECIMAL_PLACES_def)
  with a have "bn_div current origin = current / origin"
    by (intro bn_div_exact) auto
  with a show "calculateCompoundedBorrow raw origin current = raw * (current / origin)"
    by (simp add: calculateCompoundedBorrow_def)
next
  have "(105 * 10 ^ 16 :: rat) * 10 ^ DECIMAL_PLACES = of_int (105 * 10 ^ 18) * 10 ^ 18"
    by (simp add: DECIMAL_PLACES_def)
  then have "bn_div (105 * 10 ^ 16) (10 ^ 18) = (105 * 10 ^ 16) / 10 ^ 18"
    by (intro bn_div_exact) auto
  then show "calculateCompoundedBorrow (10 ^ 18) (10 ^ 18) (105 * 10 ^ 16) = 105 * 10 ^ 16"
    by (simp add: calculateCompoundedBorrow_def)
qed

theorem compounded_borrow_formula_witness:
  "calculateCompoundedBorrow 7 0 5 = 7
   \<and> calculateCompoundedBorrow 3 3 1 = 3 * bn_div 1 3
   \<and> \<bar>calculateCompoundedBorrow 3 3 1 - 3 * (1 / 3)\<bar> \<le> \<bar>3\<bar> / (2 * 10 ^ 20)
   \<and> calculateCompoundedBorrow 2 4 1 = 2 * (1 / 4)"
proof -
  have k: "(4::rat) \<noteq> 0 \<and> (\<exists>k. (1::rat) * 10 ^ 20 = rat_of_int k * 4)"
    by (rule conjI, simp, rule exI [of _ "25 * 10 ^ 18"]) simp
  have a: "calculateCompoundedBorrow 7 0 5 = 7"
    using compounded_borrow_formula [of 0 7 5] by blast
  have b: "calculateCompoundedBorrow 3 3 1 = 3 * bn_div 1 3
     \<and> \<bar>calculateCompoundedBorrow 3 3 1 - 3 * (1 / 3)\<bar> \<le> \<bar>3\<bar> / (2 * 10 ^ 20)"
    using compounded_borrow_formula [of 3 3 1] by fastforce
  have c: "calculateCompoundedBorrow 2 4 1 = 2 * (1 / 4)"
    using compounded_borrow_formula [of 4 2 1] k by blast
  from a b c show ?thesis by blast
qed

subsection \<open>Health factor\<close>

text \<open>
  Claim C5. The health factor is the quotient (as the decimal library computes it,
  so within half a unit of the 20th decimal of the exact quotient) of the liquidation
  threshold (\<^verbatim>\<open>unhealthyBorrowValueUsd\<close>) by the weighted borrows, and it is
  \<open>Infinity\<close> exactly when the weighted borrows are zero.
\<close>

theorem health_factor_formula:
  "healthFactor (calculatePortfolioMetrics ob) =
     (if weightedBorrowsUsd ob = 0 then Infinity
      else Finite (bn_div (unhealthyBorrowValueUsd ob) (weightedBorrowsUsd ob)))
   \<and> (healthFactor (calculatePortfolioMetrics ob) = Infinity \<longleftrightarrow> weightedBorrowsUsd ob = 0)
   \<and> (weightedBorrowsUsd ob \<noteq> 0 \<longrightarrow>
        (\<exists>h. healthFactor (calculatePortfolioMetrics ob) = Finite h
             \<and> \<bar>h - unhealthyBorrowValueUsd ob / weightedBorrowsUsd ob\<bar> \<le> 1 / (2 * 10 ^ 20)))"
proof -
  have "\<bar>bn_div (unhealthyBorrowValueUsd ob) (weightedBorrowsUsd ob)
          - unhealthyBorrowValueUsd ob / weightedBorrowsUsd ob\<bar> \<le> 1 / (2 * 10 ^ 20)"
    using bn_div_error [of "unhealthyBorrowValueUsd ob" "weightedBorrowsUsd ob"]
    by (simp add: DECIMAL_PLACES_def)
  then show ?thesis
    by (simp add: calculatePortfolioMetrics_def Let_def)
qed

theorem health_factor_formula_witness:
  "healthFactor (calculatePortfolioMetrics obligation_without_debt) = Infinity
   \<and> healthFactor (calculatePortfolioMetrics obligation_two_deposits) = Finite (33 / 10)"
proof -
  have "(1650::rat) * 10 ^ DECIMAL_PLACES = of_int (33 * 10 ^ 19) * 500"
    by (simp add: DECIMAL_PLACES_def)
  then have "bn_div 1650 500 = 1650 / 500"
    by (intro bn_div_exact) auto
  then show ?thesis
    using health_factor_formula [of obligation_without_debt]
      health_factor_formula [of obligation_two_deposits]
    by (simp add: obligation_without_debt_def obligation_two_deposits_def)
qed

subsection \<open>Liquidation price\<close>

lemma liquidation_price_cases:
  "calculateLiquidationPrice target amt closeLtv ob =
     (if weightedBorrowsUsd ob - otherCollateralWeighted target ob \<le> 0 then Some 0
      else if amt * closeLtv = 0 then None
      else Some (bn_div (weightedBorrowsUsd ob - otherCollateralWeighted target ob)
                   (amt * closeLtv)))"
  by (simp add: calculateLiquidationPrice_def Let_def)

text \<open>
  Claim C2, evaluated on the code. With nothing borrowed the numerator is 0, and with
  500 USD of weighted borrows beside 850 USD of other weighted collateral it is -350:
  in both cases the function returns the number 0 and not \<^verbatim>\<open>null\<close>. It returns
  \<^verbatim>\<open>null\<close> only for a positive numerator over a zero denominator.
\<close>

theorem liquidation_price_nonpositive_numerator_returns_zero:
  "calculateLiquidationPrice ''0x2::sui::SUI'' 500 (4 / 5) obligation_without_debt = Some 0
   \<and> weightedBorrowsUsd obligation_two_deposits
       - otherCollateralWeighted ''0x2::sui::SUI'' obligation_two_deposits = - 350
   \<and> calculateLiquidationPrice ''0x2::sui::SUI'' 500 (4 / 5) obligation_two_deposits = Some 0
   \<and> calculateLiquidationPrice ''0x2::sui::SUI'' 0 (4 / 5)
        (obligation_two_deposits \<lparr> weightedBorrowsUsd := 900 \<rparr>) = None"
  by (simp add: liquidation_price_cases otherCollateralWeighted_def
      obligation_without_debt_def obligation_two_deposits_def sui_deposit_def usdc_deposit_def)

subsection \<open>The deleverage estimate and builder\<close>

lemma bigint_div_nonneg: "0 \<le> a \<Longrightarrow> 0 < b \<Longrightarrow> bigint_div a b = a div b"
  by (cases "a = 0") (simp_all add: bigint_div_def)


lemma best_quote_None: "best_quote qs = None \<longleftrightarrow> qs = []"
proof -
  have "length (sort_key (\<lambda>q. - amountOut q) qs) = length qs" by simp
  then show ?thesis by (cases qs) (auto simp: best_quote_def split: list.splits)
qed



lemma BigInt_bigint_toString: "0 \<le> n \<Longrightarrow> BigInt (bigint_toString n) = Inr n"
  using nat_toString_digits [of "nat n"] by (simp add: bigint_toString_def BigInt_def)

lemma best_quote_single [simp]: "best_quote [q] = Some q"
  by (simp add: best_quote_def)



lemma underwater_estimate:
  "calculateDeleverageEstimate (constant_rate_collaborators 200 fee) example_position =
     Inr \<lparr> flashLoanUsdc = 1005000000, flashLoanFee = int fee,
           totalRepayment = 1005000000 + int fee, swapAmount = 100000000000,
           keepCollateral = 0, estimatedUsdcProfit = 0, totalProfitUsd = 0 \<rparr>"
proof -
  define target where "target = bigint_div ((1005000000 + int fee) * 102) 100"
  have "target = (1005000000 + int fee) * 102 div 100"
    by (simp add: target_def bigint_div_nonneg)
  moreover have "(1005000000 * 102) div 100 \<le> (1005000000 + int fee) * 102 div (100::int)"
    by (rule zdiv_mono1) simp_all
  ultimately have t: "1025100000 \<le> target" by simp
  have "bigint_div (target * 100000000000) 500000000 = target * 200"
    using t by (simp add: bigint_div_nonneg)
  then have r: "bigint_div (target * 100000000000) 500000000 > 100000000000"
    using t by simp
  show ?thesis
    using r
    by (simp add: calculateDeleverageEstimate_def Let_def constant_rate_collaborators_def
        example_position_def BigInt_bigint_toString bigint_div_nonneg target_def)
qed

text \<open>
  Claim C1, evaluated on the code. For the example position at the rate 200 the whole
  collateral is quoted at 500 USDC, below the repayment of at least 1005 USDC, whatever
  the fee. The estimate caps the swap at the whole collateral with nothing kept and a
  profit of 0, and the builder returns normally with the complete plan, whose
  \<open>SplitCoins swappedUsdc\<close> asks for the full repayment: no comparison of the quote
  with the repayment is made and nothing is thrown.
\<close>

theorem deleverage_plan_built_when_quote_below_repayment:
  "calculateDeleverageEstimate (constant_rate_collaborators 200 fee) example_position =
     Inr \<lparr> flashLoanUsdc = 1005000000, flashLoanFee = int fee,
           totalRepayment = 1005000000 + int fee, swapAmount = 100000000000,
           keepCollateral = 0, estimatedUsdcProfit = 0, totalProfitUsd = 0 \<rparr>
   \<and> quote (constant_rate_collaborators 200 fee) (bigint_toString 100000000000)
         SUI_COIN_TYPE USDC_COIN_TYPE
       = Inr [\<lparr> amountIn = 100000000000, amountOut = 500000000 \<rparr>]
   \<and> (500000000 :: int) < 1005000000 + int fee
   \<and> buildDeleverageTransaction (constant_rate_collaborators 200 fee) user example_position tx =
       (Inr (),
        tx @ [BorrowFlashLoan 1005000000 ''usdc'',
              RefreshOracles [SUI_COIN_TYPE, USDC_COIN_TYPE] user,
              Repay USDC_COIN_TYPE loanCoin user,
              Withdraw SUI_COIN_TYPE (bigint_toString 100000000000) user,
              SplitCoins withdrawnCoin [100000000000],
              Swap \<lparr> amountIn = 100000000000, amountOut = 500000000 \<rparr> user coinToSwap 100,
              SplitCoins swappedUsdc [1005000000 + int fee],
              RepayFlashLoan flashRepayment receipt ''usdc'',
              TransferObjects [withdrawnCoin, swappedUsdc, loanCoin] user])"
proof -
  have q: "quote (constant_rate_collaborators 200 fee) (bigint_toString 100000000000)
      SUI_COIN_TYPE USDC_COIN_TYPE = Inr [\<lparr> amountIn = 100000000000, amountOut = 500000000 \<rparr>]"
    by (simp add: constant_rate_collaborators_def BigInt_bigint_toString)
  have c: "refreshOracles (constant_rate_collaborators 200 fee) = (\<lambda>c u. None)"
    "repay (constant_rate_collaborators 200 fee) = (\<lambda>c u. None)"
    "withdraw (constant_rate_collaborators 200 fee) = (\<lambda>c a u. None)"
    "swap (constant_rate_collaborators 200 fee) = (\<lambda>q u. None)"
    by (simp_all add: constant_rate_collaborators_def)
  have p: "assetCoinType (collateral example_position) = SUI_COIN_TYPE"
    "amount (collateral example_position) = 100000000000"
    by (simp_all add: example_position_def)
  show ?thesis
    by (simp add: buildDeleverageTransaction_def underwater_estimate q c p Let_def)
qed

subsection \<open>Withdrawable amount\<close>










subsection \<open>The facade: aggregated portfolio\<close>

text \<open>
  Claim C10, as amended. On an initialized session whose user address is not the empty
  string, \<^verbatim>\<open>getAggregatedPortfolio\<close> does not reject: it returns two portfolios, the
  first for Suilend and the second for Navi. Each is what the protocol's adapter
  returns, or, when the adapter's query fails (or there is no adapter), the default for
  that protocol and the session's address: health factor \<^verbatim>\<open>Infinity\<close>, all three USD
  totals 0 and no positions.
\<close>

theorem aggregated_portfolio:
  assumes "initialized sdk" and "userAddress_field sdk = Some address" and "address \<noteq> []"
  shows "\<exists>s n. getAggregatedPortfolio sdk = Inr [s, n]
     \<and> (\<forall>adapter portfolio.
           protocols sdk Suilend = Some adapter \<and> getAccountPortfolio adapter address = Inr portfolio
           \<longrightarrow> s = portfolio)
     \<and> (protocols sdk Suilend = None
          \<or> (\<exists>adapter e. protocols sdk Suilend = Some adapter
                \<and> getAccountPortfolio adapter address = Inl e)
         \<longrightarrow> s = \<lparr> portfolioProtocol = Suilend, portfolioAddress = address,
                   portfolioHealthFactor = PositiveInfinity, portfolioNetValueUsd = 0,
                   totalCollateralUsd = 0, totalDebtUsd = 0, positions = [] \<rparr>)
     \<and> (\<forall>adapter portfolio.
           protocols sdk Navi = Some adapter \<and> getAccountPortfolio adapter address = Inr portfolio
           \<longrightarrow> n = portfolio)
     \<and> (protocols sdk Navi = None
          \<or> (\<exists>adapter e. protocols sdk Navi = Some adapter
                \<and> getAccountPortfolio adapter address = Inl e)
         \<longrightarrow> n = \<lparr> portfolioProtocol = Navi, portfolioAddress = address,
                   portfolioHealthFactor = PositiveInfinity, portfolioNetValueUsd = 0,
                   totalCollateralUsd = 0, totalDebtUsd = 0, positions = [] \<rparr>)"
  using assms
  by (auto simp: getAggregatedPortfolio_def ensureInitialized_def userAddress_def
      default_portfolio_def split: option.splits sum.splits)

lemma initialize_ok:
  "initialize new_DefiDashSDK (Inr address) (Inr suilend) (Inr navi) =
     (Inr (), \<lparr> initialized = True, keypair = None, userAddress_field = Some address,
                protocols = (\<lambda>p. None) (Suilend := Some suilend, Navi := Some navi) \<rparr>)"
  by (simp add: initialize_def new_DefiDashSDK_def)

theorem aggregated_portfolio_witness:
  "getAggregatedPortfolio
     (snd (initialize new_DefiDashSDK (Inr ''0xabc'') (Inr answering_adapter) (Inr failing_adapter)))
   = Inr [example_portfolio,
          \<lparr> portfolioProtocol = Navi, portfolioAddress = ''0xabc'',
            portfolioHealthFactor = PositiveInfinity, portfolioNetValueUsd = 0,
            totalCollateralUsd = 0, totalDebtUsd = 0, positions = [] \<rparr>]"
proof -
  let ?sdk = "snd (initialize new_DefiDashSDK (Inr ''0xabc'') (Inr answering_adapter) (Inr failing_adapter))"
  have i: "initialized ?sdk" "userAddress_field ?sdk = Some ''0xabc''" "''0xabc'' \<noteq> []"
    "protocols ?sdk Suilend = Some answering_adapter" "protocols ?sdk Navi = Some failing_adapter"
    by (simp_all add: initialize_ok)
  have q: "getAccountPortfolio answering_adapter ''0xabc'' = Inr example_portfolio"
    "getAccountPortfolio failing_adapter ''0xabc'' = Inl (Error ''fetch failed'')"
    by (simp_all add: answering_adapter_def failing_adapter_def)
  from aggregated_portfolio [OF i(1,2,3)] obtain s n where
    sn: "getAggregatedPortfolio ?sdk = Inr [s, n]"
      "\<forall>adapter portfolio.
           protocols ?sdk Suilend = Some adapter \<and> getAccountPortfolio adapter ''0xabc'' = Inr portfolio
           \<longrightarrow> s = portfolio"
      "protocols ?sdk Navi = None
          \<or> (\<exists>adapter e. protocols ?sdk Navi = Some adapter
                \<and> getAccountPortfolio adapter ''0xabc'' = Inl e)
         \<longrightarrow> n = \<lparr> portfolioProtocol = Navi, portfolioAddress = ''0xabc'',
                   portfolioHealthFactor = PositiveInfinity, portfolioNetValueUsd = 0,
                   totalCollateralUsd = 0, totalDebtUsd = 0, positions = [] \<rparr>"
    by blast
  from sn(2) i(4) q(1) have "s = example_portfolio" by blast
  moreover from sn(3) i(5) q(2) have "n = \<lparr> portfolioProtocol = Navi, portfolioAddress = ''0xabc'',
                   portfolioHealthFactor = PositiveInfinity, portfolioNetValueUsd = 0,
                   totalCollateralUsd = 0, totalDebtUsd = 0, positions = [] \<rparr>" by blast
  ultimately show ?thesis using sn(1) by simp
qed

text \<open>
  The restriction on the address is needed: \<^verbatim>\<open>initialize\<close> accepts the empty string
  as the address and sets \<^verbatim>\<open>initialized\<close>, after which the getter \<^verbatim>\<open>userAddress\<close>
  throws.
\<close>

theorem aggregated_portfolio_rejects_for_empty_address:
  "initialized (snd (initialize new_DefiDashSDK (Inr '''') (Inr answering_adapter) (Inr answering_adapter)))
   \<and> fst (initialize new_DefiDashSDK (Inr '''') (Inr answering_adapter) (Inr answering_adapter)) = Inr ()
   \<and> getAggregatedPortfolio
       (snd (initialize new_DefiDashSDK (Inr '''') (Inr answering_adapter) (Inr answering_adapter)))
     = Inl (Error ''User address not set. Call initialize() first.'')"
  by (simp add: initialize_ok getAggregatedPortfolio_def ensureInitialized_def userAddress_def)

subsection \<open>The facade: leverage and deleverage\<close>
















end
